theory Spec2Isabelle
  imports Main
begin

section \<open>Python strings\<close>

text \<open>
  A Python \<open>str\<close> is a sequence of Unicode code points, so it is modelled as a list of
  natural numbers, one per code point. The labels of the program that are written in
  Chinese are given by their code points. \<open>u\<close> turns an ASCII literal into such a string.
\<close>

type_synonym pystr = "nat list"

definition u :: "string \<Rightarrow> pystr" where
  "u s = map of_char s"

definition NL :: nat where
  "NL = 10"

text \<open>
  \<open>str.isspace\<close>, which is also the class \<open>\s\<close> of \<open>re\<close> on \<open>str\<close> patterns: the
  whitespace code points of Unicode.
\<close>

definition isspace :: "nat \<Rightarrow> bool" where
  "isspace c = (c \<in> set [9, 10, 11, 12, 13, 28, 29, 30, 31, 32, 133, 160, 5760,
      8192, 8193, 8194, 8195, 8196, 8197, 8198, 8199, 8200, 8201, 8202,
      8232, 8233, 8239, 8287, 12288])"

text \<open>
  The other character tables come from the Unicode database of the interpreter, which is
  not part of the repository; they are a parameter of every function that uses them:
  \<open>isword\<close> is the class \<open>\w\<close>, \<open>decimal\<close> gives the value of a character of the class
  \<open>\d\<close> (as \<open>int()\<close> reads it), \<open>lower\<close> is \<open>str.lower\<close>.
\<close>

record unitab =
  isword :: "nat \<Rightarrow> bool"
  decimal :: "nat \<Rightarrow> nat option"
  lower :: "pystr \<Rightarrow> pystr"

text \<open>
  A table that agrees with Python on ASCII and on the CJK unified ideographs
  (U+4E00 to U+9FFF): it is used where a concrete file is evaluated.
\<close>

definition ascii_cjk :: unitab where
  "ascii_cjk = \<lparr>
     isword = (\<lambda>c. (48 \<le> c \<and> c \<le> 57) \<or> (65 \<le> c \<and> c \<le> 90) \<or> c = 95
                 \<or> (97 \<le> c \<and> c \<le> 122) \<or> (19968 \<le> c \<and> c \<le> 40959)),
     decimal = (\<lambda>c. if 48 \<le> c \<and> c \<le> 57 then Some (c - 48) else None),
     lower = map (\<lambda>c. if 65 \<le> c \<and> c \<le> 90 then c + 32 else c) \<rparr>"

definition startswith :: "pystr \<Rightarrow> pystr \<Rightarrow> bool" where
  "startswith s p = (take (length p) s = p)"

text \<open>\<open>contains sub s\<close> is Python's \<open>sub in s\<close>.\<close>

fun contains :: "pystr \<Rightarrow> pystr \<Rightarrow> bool" where
  "contains sub [] = (sub = [])"
| "contains sub (c # cs) = (startswith (c # cs) sub \<or> contains sub cs)"

definition lstrip :: "pystr \<Rightarrow> pystr" where
  "lstrip s = dropWhile isspace s"

definition rstrip :: "pystr \<Rightarrow> pystr" where
  "rstrip s = rev (dropWhile isspace (rev s))"

definition strip :: "pystr \<Rightarrow> pystr" where
  "strip s = rstrip (lstrip s)"

fun join :: "pystr \<Rightarrow> pystr list \<Rightarrow> pystr" where
  "join sep [] = []"
| "join sep [x] = x"
| "join sep (x # y # ys) = x @ sep @ join sep (y # ys)"

text \<open>\<open>split_nl s\<close> is \<open>s.split('\n')\<close>: it never returns the empty list.\<close>

fun split_nl :: "pystr \<Rightarrow> pystr list" where
  "split_nl [] = [[]]"
| "split_nl (c # cs) =
     (if c = NL then [] # split_nl cs
      else (case split_nl cs of [] \<Rightarrow> [[c]] | l # ls \<Rightarrow> (c # l) # ls))"

text \<open>The first result of \<open>f\<close> over a list of candidates, in the order of the list.\<close>

fun first_some :: "('a \<Rightarrow> 'b option) \<Rightarrow> 'a list \<Rightarrow> 'b option" where
  "first_some f [] = None"
| "first_some f (x # xs) = (case f x of Some y \<Rightarrow> Some y | None \<Rightarrow> first_some f xs)"

datatype py_error = IndexError | KeyError | ValueError | StopIteration


section \<open>parser.py: the document model\<close>

datatype ElementType =
  HEADING | PARAGRAPH | CODE_BLOCK | LIST | QUOTE | HORIZONTAL_RULE | TABLE | EMPTY

text \<open>
  \<open>MarkdownElement\<close>. The fields \<open>type\<close>, \<open>need_image\<close>, \<open>image_type\<close> and
  \<open>image_prompt\<close> carry the prefix \<open>el_\<close>, since \<open>ImageDecision\<close> has fields of the
  same names.
\<close>

record MarkdownElement =
  el_type :: ElementType
  content :: pystr
  level :: nat
  position :: nat
  raw_line :: pystr
  word_count :: nat
  line_count :: nat
  el_need_image :: bool
  el_image_type :: "pystr option"
  el_image_prompt :: "pystr option"

text \<open>
  The constructor with the defaults of the dataclass; \<open>__post_init__\<close> sets
  \<open>word_count\<close> to the length of the content with every run of whitespace removed.
\<close>

definition mk_element :: "ElementType \<Rightarrow> pystr \<Rightarrow> nat \<Rightarrow> pystr \<Rightarrow> MarkdownElement" where
  "mk_element ty c lv raw = \<lparr>
     el_type = ty, content = c, level = lv, position = 0, raw_line = raw,
     word_count = length (filter (\<lambda>x. \<not> isspace x) c), line_count = 0,
     el_need_image = False, el_image_type = None, el_image_prompt = None \<rparr>"

text \<open>
  \<open>MarkdownDocument\<close>; its field \<open>keywords\<close> is \<open>doc_keywords\<close> here, and
  \<open>doc_type\<close> is the attribute that \<open>analyze\<close> adds to the object (absent until
  then).
\<close>

record MarkdownDocument =
  elements :: "MarkdownElement list"
  title :: pystr
  theme :: pystr
  doc_keywords :: "pystr list"
  doc_type :: "pystr option"

definition get_headings :: "MarkdownDocument \<Rightarrow> nat option \<Rightarrow> MarkdownElement list" where
  "get_headings doc lv =
     (let headings = filter (\<lambda>e. el_type e = HEADING) (elements doc)
      in case lv of None \<Rightarrow> headings | Some l \<Rightarrow> filter (\<lambda>e. level e = l) headings)"

definition get_paragraphs :: "MarkdownDocument \<Rightarrow> MarkdownElement list" where
  "get_paragraphs doc = filter (\<lambda>e. el_type e = PARAGRAPH) (elements doc)"


section \<open>parser.py: the line patterns\<close>

text \<open>
  Each pattern of \<open>MarkdownParser\<close> is used through \<open>match\<close>, which tries the pattern
  at the start of the line only. \<open>.\<close> is every character but the newline and \<open>$\<close> is the
  end of the line or the place before a newline that ends it.

  \<open>eol_body t\<close> is the match of \<open>(.*)$\<close> at the start of \<open>t\<close>: the group, when there is
  a match.
\<close>

definition eol_body :: "pystr \<Rightarrow> pystr option" where
  "eol_body t =
     (let b = takeWhile (\<lambda>c. c \<noteq> NL) t; r = drop (length b) t
      in if r = [] \<or> r = [NL] then Some b else None)"

text \<open>\<open>EMPTY_PATTERN\<close>, \<open>^\s*$\<close>.\<close>

definition EMPTY_PATTERN :: "pystr \<Rightarrow> bool" where
  "EMPTY_PATTERN line = list_all isspace line"

text \<open>
  \<open>HEADING_PATTERN\<close>, \<open>^(#{1,6})\s+(.+)$\<close>: the length of group 1 and group 2. The run
  of \<open>#\<close> is the whole run at the start of the line (a seventh \<open>#\<close> is no whitespace);
  \<open>\s+\<close> is greedy and gives characters back, the longest first, until group 2 is not
  empty.
\<close>

definition HEADING_PATTERN :: "pystr \<Rightarrow> (nat \<times> pystr) option" where
  "HEADING_PATTERN line =
     (let k = length (takeWhile (\<lambda>c. c = 35) line);
          rest = drop k line;
          m = length (takeWhile isspace rest)
      in if 1 \<le> k \<and> k \<le> 6
         then first_some
                (\<lambda>w. case eol_body (drop w rest) of
                        None \<Rightarrow> None
                      | Some b \<Rightarrow> if b = [] then None else Some (k, b))
                (rev [1..<Suc m])
         else None)"

text \<open>
  \<open>CODE_BLOCK_PATTERN\<close>, \<open>^```(\w*)\s*$\<close>: three backquotes, word characters, then
  whitespace to the end of the line.
\<close>

definition CODE_BLOCK_PATTERN :: "unitab \<Rightarrow> pystr \<Rightarrow> bool" where
  "CODE_BLOCK_PATTERN T line =
     (startswith line [96, 96, 96] \<and>
      (let rest = drop 3 line; m = length (takeWhile (isword T) rest)
       in list_ex (\<lambda>j. list_all isspace (drop j rest)) [0..<Suc m]))"

text \<open>
  \<open>LIST_PATTERN\<close>, \<open>^(\s*)([-*+]|\d+\.)\s+\<close>: after some of the leading whitespace, a
  bullet or a number with a dot, then at least one whitespace character.
\<close>

definition list_marker :: "unitab \<Rightarrow> pystr \<Rightarrow> bool" where
  "list_marker T r =
     ((case r of
         c # s # _ \<Rightarrow> (c = 45 \<or> c = 42 \<or> c = 43) \<and> isspace s
       | _ \<Rightarrow> False) \<or>
      (let d = length (takeWhile (\<lambda>c. decimal T c \<noteq> None) r)
       in list_ex (\<lambda>j. case drop j r of
                          c # s # _ \<Rightarrow> c = 46 \<and> isspace s
                        | _ \<Rightarrow> False) [1..<Suc d]))"

definition LIST_PATTERN :: "unitab \<Rightarrow> pystr \<Rightarrow> bool" where
  "LIST_PATTERN T line =
     (let m = length (takeWhile isspace line)
      in list_ex (\<lambda>w. list_marker T (drop w line)) [0..<Suc m])"

text \<open>
  \<open>QUOTE_PATTERN\<close>, \<open>^>\s*(.*)$\<close>: group 1, when the line matches. \<open>\s*\<close> is greedy and
  gives characters back, the longest first.
\<close>

definition QUOTE_PATTERN :: "pystr \<Rightarrow> pystr option" where
  "QUOTE_PATTERN line =
     (case line of
        [] \<Rightarrow> None
      | c # rest \<Rightarrow>
          if c = 62
          then first_some (\<lambda>w. eol_body (drop w rest))
                 (rev [0..<Suc (length (takeWhile isspace rest))])
          else None)"

text \<open>\<open>TABLE_PATTERN\<close>, \<open>^\|.*\|$\<close>.\<close>

definition bar_end :: "pystr \<Rightarrow> bool" where
  "bar_end t = (t \<noteq> [] \<and> last t = 124 \<and> NL \<notin> set (butlast t))"

definition TABLE_PATTERN :: "pystr \<Rightarrow> bool" where
  "TABLE_PATTERN line =
     (case line of
        [] \<Rightarrow> False
      | c # t \<Rightarrow> c = 124 \<and> (bar_end t \<or> (t \<noteq> [] \<and> last t = NL \<and> bar_end (butlast t))))"

text \<open>
  \<open>HR_PATTERN\<close>, \<open>^-{3,}$|^_{3,}$|\*{3,}$\<close>. The third alternative has no \<open>^\<close>, but
  \<open>match\<close> starts every alternative at the first character of the line: the line is a
  run of three or more of one of the three characters, and nothing else but a newline
  that ends it.
\<close>

definition run_of :: "nat \<Rightarrow> pystr \<Rightarrow> bool" where
  "run_of c s = (3 \<le> length s \<and> list_all (\<lambda>x. x = c) s)"

definition HR_PATTERN :: "pystr \<Rightarrow> bool" where
  "HR_PATTERN line =
     list_ex (\<lambda>c. run_of c line \<or> (line \<noteq> [] \<and> last line = NL \<and> run_of c (butlast line)))
       [45, 95, 42]"


section \<open>parser.py: MarkdownParser\<close>

text \<open>
  The block parsers read \<open>lines[i]\<close> inside \<open>while i < total_lines\<close>, so each loop is
  the longest run of lines from its start that satisfies the loop's test. The result
  is the element and the number of lines consumed.
\<close>

definition parse_code_block :: "unitab \<Rightarrow> pystr list \<Rightarrow> nat \<Rightarrow> MarkdownElement \<times> nat" where
  "parse_code_block T lines index =
     (let content_lines = takeWhile (\<lambda>l. \<not> CODE_BLOCK_PATTERN T l) (drop (index + 1) lines);
          i = index + 1 + length content_lines
      in (mk_element CODE_BLOCK (join [NL] content_lines) 0 (lines ! index), i - index + 1))"

definition paragraph_stop :: "unitab \<Rightarrow> pystr \<Rightarrow> bool" where
  "paragraph_stop T line =
     ((EMPTY_PATTERN line \<or> HEADING_PATTERN line \<noteq> None \<or> CODE_BLOCK_PATTERN T line
       \<or> HR_PATTERN line)
      \<or> (LIST_PATTERN T line \<or> QUOTE_PATTERN line \<noteq> None))"

definition parse_paragraph :: "unitab \<Rightarrow> pystr list \<Rightarrow> nat \<Rightarrow> MarkdownElement \<times> nat" where
  "parse_paragraph T lines index =
     (let content_lines = takeWhile (\<lambda>l. \<not> paragraph_stop T l) (drop index lines);
          i = index + length content_lines
      in (mk_element PARAGRAPH (join [32] content_lines) 0 (lines ! index), i - index))"

definition parse_list :: "unitab \<Rightarrow> pystr list \<Rightarrow> nat \<Rightarrow> MarkdownElement \<times> nat" where
  "parse_list T lines index =
     (let content_lines = takeWhile (LIST_PATTERN T) (drop index lines);
          i = index + length content_lines
      in (mk_element LIST (join [NL] content_lines) 0 (lines ! index), i - index))"

definition parse_quote :: "pystr list \<Rightarrow> nat \<Rightarrow> MarkdownElement \<times> nat" where
  "parse_quote lines index =
     (let matched = takeWhile (\<lambda>l. QUOTE_PATTERN l \<noteq> None) (drop index lines);
          content_lines = map (\<lambda>l. case QUOTE_PATTERN l of Some g \<Rightarrow> g | None \<Rightarrow> []) matched;
          i = index + length matched
      in (mk_element QUOTE (join [32] content_lines) 0 (lines ! index), i - index))"

definition parse_table :: "pystr list \<Rightarrow> nat \<Rightarrow> MarkdownElement \<times> nat" where
  "parse_table lines index =
     (let content_lines = takeWhile TABLE_PATTERN (drop index lines);
          i = index + length content_lines
      in (mk_element TABLE (join [NL] content_lines) 0 (lines ! index), i - index))"

text \<open>
  \<open>_parse_line\<close>. \<open>lines[index]\<close> raises \<open>IndexError\<close> past the end of the list. An
  empty line gives no element.
\<close>

definition parse_line ::
  "unitab \<Rightarrow> pystr list \<Rightarrow> nat \<Rightarrow> py_error + (MarkdownElement option \<times> nat)" where
  "parse_line T lines index =
     (if index \<ge> length lines then Inl IndexError
      else let line = lines ! index in
        if EMPTY_PATTERN line then Inr (None, 1)
        else case HEADING_PATTERN line of
          Some (lv, c) \<Rightarrow> Inr (Some (mk_element HEADING c lv line), 1)
        | None \<Rightarrow>
            if CODE_BLOCK_PATTERN T line then
              (case parse_code_block T lines index of (e, n) \<Rightarrow> Inr (Some e, n))
            else if QUOTE_PATTERN line \<noteq> None then
              (case parse_quote lines index of (e, n) \<Rightarrow> Inr (Some e, n))
            else if LIST_PATTERN T line then
              (case parse_list T lines index of (e, n) \<Rightarrow> Inr (Some e, n))
            else if TABLE_PATTERN line then
              (case parse_table lines index of (e, n) \<Rightarrow> Inr (Some e, n))
            else if HR_PATTERN line then
              Inr (Some (mk_element HORIZONTAL_RULE line 0 line), 1)
            else
              (case parse_paragraph T lines index of (e, n) \<Rightarrow> Inr (Some e, n)))"

text \<open>
  The loop of \<open>parse\<close>: \<open>while i < total_lines\<close>, with \<open>i += lines_consumed\<close>. Nothing
  in the loop itself bounds the number of its steps, so it is a partial function: \<open>None\<close>
  is a loop that never ends, \<open>Some (Inl e)\<close> an exception.
\<close>

partial_function (option) parse_loop ::
  "unitab \<Rightarrow> pystr list \<Rightarrow> nat \<Rightarrow> MarkdownElement list \<Rightarrow> (py_error + MarkdownElement list) option"
where
  "parse_loop T lines i els =
     (if i < length lines then
        (case parse_line T lines i of
           Inl e \<Rightarrow> Some (Inl e)
         | Inr (element, lines_consumed) \<Rightarrow>
             parse_loop T lines (i + lines_consumed)
               (case element of
                  None \<Rightarrow> els
                | Some el \<Rightarrow> els @ [el\<lparr>position := length els\<rparr>]))
      else Some (Inr els))"

definition extract_title :: "MarkdownDocument \<Rightarrow> pystr" where
  "extract_title doc =
     (case get_headings doc (Some 1) of
        [] \<Rightarrow> u ''Untitled''
      | h # _ \<Rightarrow> content h)"

definition parse :: "unitab \<Rightarrow> pystr \<Rightarrow> (py_error + MarkdownDocument) option" where
  "parse T text =
     (case parse_loop T (split_nl text) 0 [] of
        None \<Rightarrow> None
      | Some (Inl e) \<Rightarrow> Some (Inl e)
      | Some (Inr els) \<Rightarrow>
          (let doc = \<lparr>elements = els, title = [], theme = [], doc_keywords = [], doc_type = None\<rparr>
           in Some (Inr (doc\<lparr>title := extract_title doc\<rparr>))))"

declare parse_loop.simps [code]


section \<open>analyzer.py: configuration and decisions\<close>

text \<open>\<open>d.get(key, default)\<close> on a dictionary whose key may be missing.\<close>

definition get_or :: "'a option \<Rightarrow> 'a \<Rightarrow> 'a" where
  "get_or v d = (case v of None \<Rightarrow> d | Some x \<Rightarrow> x)"

text \<open>
  The value of the rule \<open>h2_after\<close>: \<open>True\<close>, the string \<open>'smart'\<close>, or anything else
  (\<open>False\<close> among them).
\<close>

datatype h2_value = H2_True | H2_smart | H2_other

text \<open>The dictionary \<open>config['rules']\<close>; a key that is missing is \<open>None\<close>.\<close>

record Rules =
  h1_after :: "bool option"
  h2_after :: "h2_value option"
  long_paragraph_threshold :: "int option"
  min_gap_between_images :: "int option"
  max_images_per_article :: "int option"

text \<open>One entry of \<open>config['ab_test']['variations']\<close>, and the dictionary itself.\<close>

record Variation =
  var_name :: "pystr option"
  var_description :: "pystr option"
  prompt_suffix :: "pystr option"

record AbTest =
  enabled :: "bool option"
  variations :: "Variation list option"
  test_size :: "int option"

text \<open>One variant of a decision: the keys \<open>name\<close>, \<open>description\<close>, \<open>prompt\<close>.\<close>

record AbVariant =
  v_name :: pystr
  v_description :: pystr
  v_prompt :: pystr

record ImageDecision =
  element_index :: nat
  need_image :: bool
  image_type :: pystr
  prompt :: pystr
  reason :: pystr
  ab_variants :: "AbVariant list option"
  image_source :: "pystr option"

text \<open>
  The analyzer object. \<open>self.image_source\<close> is \<open>self_image_source\<close>. The collaborators
  that are outside the placement engine are fields of the object: the classifier
  (absent, or a call that raises or returns the value of the key \<open>type\<close>, when the
  result has one), \<open>_generate_prompt\<close> (the language model, or a template whose
  \<open>format\<close> may raise), \<open>_analyze_theme\<close> and \<open>_extract_keywords\<close>.
\<close>

record ContentAnalyzer =
  rules :: Rules
  ab_test :: AbTest
  self_image_source :: pystr
  use_intelligent :: bool
  classifier :: "(MarkdownDocument \<Rightarrow> py_error + pystr option) option"
  generate_prompt ::
    "MarkdownElement \<Rightarrow> MarkdownDocument \<Rightarrow> pystr \<Rightarrow> pystr \<Rightarrow> py_error + pystr"
  analyze_theme :: "MarkdownDocument \<Rightarrow> pystr"
  extract_keywords :: "MarkdownDocument \<Rightarrow> pystr list"

definition CONCEPT_KEYWORDS :: "pystr list" where
  "CONCEPT_KEYWORDS =
     [[21407, 29702], [26426, 21046], [27010, 24565], [27969, 31243],
      [24037, 20316, 21407, 29702], [26159, 20160, 20040],
      u ''principle'', u ''mechanism'', u ''concept'', u ''how it works'']"

text \<open>\<open>str(n)\<close> for a number that is not negative.\<close>

function str_nat :: "nat \<Rightarrow> pystr" where
  "str_nat n = (if n < 10 then [48 + n] else str_nat (n div 10) @ [48 + n mod 10])"
  by pat_completeness auto
termination
  by (relation "measure id") auto

declare str_nat.simps [simp del]


section \<open>analyzer.py: ContentAnalyzer\<close>

definition determine_image_source :: "ContentAnalyzer \<Rightarrow> pystr \<Rightarrow> pystr \<Rightarrow> pystr" where
  "determine_image_source A img_type dtype =
     (if img_type = u ''cover'' then self_image_source A
      else if dtype = u ''technical''
              \<and> img_type \<in> set [u ''section'', u ''concept'', u ''diagram'']
        then u ''mermaid''
      else if dtype = u ''normal'' then u ''unsplash''
      else self_image_source A)"

text \<open>
  \<open>_generate_ab_variants\<close>: \<open>range(actual_size)\<close> is empty when \<open>test_size\<close> is
  negative.
\<close>

definition generate_ab_variants :: "pystr \<Rightarrow> Variation list \<Rightarrow> int \<Rightarrow> AbVariant list" where
  "generate_ab_variants base_prompt vs tsize =
     (let actual_size = min tsize (int (length vs))
      in map (\<lambda>i. let variation = vs ! i;
                       name = get_or (var_name variation) (u ''variant_'' @ str_nat i);
                       description = get_or (var_description variation) name;
                       suffix = get_or (prompt_suffix variation) []
                   in \<lparr>v_name = name, v_description = description,
                       v_prompt = base_prompt @ suffix\<rparr>)
           [0..<nat actual_size])"

text \<open>
  \<open>_should_add_section_image\<close>: the loop over the elements after the heading, with
  the running total.
\<close>

fun section_words :: "MarkdownElement list \<Rightarrow> nat \<Rightarrow> bool" where
  "section_words [] total_words = False"
| "section_words (element # es) total_words =
     (if el_type element = HEADING then False
      else let total' = (if el_type element = PARAGRAPH
                         then total_words + word_count element else total_words)
           in if total' > 100 then True else section_words es total')"

definition should_add_section_image :: "MarkdownDocument \<Rightarrow> nat \<Rightarrow> bool" where
  "should_add_section_image doc heading_index =
     section_words (drop (heading_index + 1) (elements doc)) 0"

definition create_cover_decision ::
  "ContentAnalyzer \<Rightarrow> MarkdownElement \<Rightarrow> MarkdownDocument \<Rightarrow> nat \<Rightarrow> py_error + ImageDecision" where
  "create_cover_decision A element doc index =
     (let dt = get_or (doc_type doc) (u ''normal'');
          src = determine_image_source A (u ''cover'') dt
      in case generate_prompt A element doc (u ''cover'') src of
           Inl e \<Rightarrow> Inl e
         | Inr p \<Rightarrow> Inr \<lparr>element_index = index, need_image = True, image_type = u ''cover'',
                     prompt = p,
                     reason = [72, 49, 32, 26631, 39064, 21518, 37197, 23553, 38754, 22270],
                     ab_variants = None, image_source = Some src\<rparr>)"

definition create_section_decision ::
  "ContentAnalyzer \<Rightarrow> MarkdownElement \<Rightarrow> MarkdownDocument \<Rightarrow> nat \<Rightarrow> py_error + ImageDecision" where
  "create_section_decision A element doc index =
     (let ty = (if list_ex (\<lambda>kw. contains kw (content element)) CONCEPT_KEYWORDS
                then u ''concept'' else u ''section'');
          dt = get_or (doc_type doc) (u ''normal'');
          src = determine_image_source A ty dt
      in case generate_prompt A element doc ty src of
           Inl e \<Rightarrow> Inl e
         | Inr p \<Rightarrow> Inr \<lparr>element_index = index, need_image = True, image_type = ty,
                     prompt = p,
                     reason = [72, 50, 32, 26631, 39064, 21518, 37197, 22270, 32, 40] @ ty @ [41],
                     ab_variants = None, image_source = Some src\<rparr>)"

definition create_atmospheric_decision ::
  "ContentAnalyzer \<Rightarrow> MarkdownElement \<Rightarrow> MarkdownDocument \<Rightarrow> nat \<Rightarrow> py_error + ImageDecision" where
  "create_atmospheric_decision A element doc index =
     (let dt = get_or (doc_type doc) (u ''normal'');
          src = determine_image_source A (u ''atmospheric'') dt
      in case generate_prompt A element doc (u ''atmospheric'') src of
           Inl e \<Rightarrow> Inl e
         | Inr p \<Rightarrow> Inr \<lparr>element_index = index, need_image = True,
                     image_type = u ''atmospheric'', prompt = p,
                     reason = [38271, 27573, 33853, 37197, 22270, 32, 40]
                              @ str_nat (word_count element) @ [32, 23383, 41],
                     ab_variants = None, image_source = Some src\<rparr>)"

text \<open>
  \<open>_analyze_element\<close>. A test that does not return falls through to the next one, as
  in the source.
\<close>

definition analyze_element ::
  "ContentAnalyzer \<Rightarrow> MarkdownElement \<Rightarrow> MarkdownDocument \<Rightarrow> nat
     \<Rightarrow> py_error + ImageDecision option" where
  "analyze_element A element doc index =
     (let some = (\<lambda>r. case r of Inl e \<Rightarrow> Inl e | Inr d \<Rightarrow> Inr (Some d)) in
      if el_type element = HEADING \<and> level element = 1 \<and> get_or (h1_after (rules A)) True
        then some (create_cover_decision A element doc index)
      else if el_type element = HEADING \<and> level element = 2
              \<and> get_or (h2_after (rules A)) H2_smart = H2_True
        then some (create_section_decision A element doc index)
      else if el_type element = HEADING \<and> level element = 2
              \<and> get_or (h2_after (rules A)) H2_smart = H2_smart
              \<and> should_add_section_image doc index
        then some (create_section_decision A element doc index)
      else if el_type element = PARAGRAPH
              \<and> int (word_count element) \<ge> get_or (long_paragraph_threshold (rules A)) 150
        then some (create_atmospheric_decision A element doc index)
      else Inr None)"

text \<open>
  The three assignments that annotate an element in place, as an update of the
  document.
\<close>

definition annotate :: "MarkdownDocument \<Rightarrow> nat \<Rightarrow> pystr \<Rightarrow> pystr \<Rightarrow> MarkdownDocument" where
  "annotate doc i ty p =
     doc\<lparr>elements := (elements doc)
        [i := (elements doc ! i)\<lparr>el_need_image := True, el_image_type := Some ty,
                                el_image_prompt := Some p\<rparr>]\<rparr>"

text \<open>The variables of \<open>analyze\<close> that its main loop changes, and the document.\<close>

record scan_state =
  decisions :: "ImageDecision list"
  last_image_index :: int
  image_count :: int
  doc :: MarkdownDocument

text \<open>
  The main loop of \<open>analyze\<close>, \<open>for i, element in enumerate(doc.elements)\<close>, over the
  indices that are left. The \<open>break\<close> returns the state; each \<open>continue\<close> goes on with
  the next index.
\<close>

fun scan :: "ContentAnalyzer \<Rightarrow> nat list \<Rightarrow> scan_state \<Rightarrow> py_error + scan_state" where
  "scan A [] st = Inr st"
| "scan A (i # is) st =
     (if image_count st \<ge> get_or (max_images_per_article (rules A)) 10 then Inr st
      else if int i - last_image_index st < get_or (min_gap_between_images (rules A)) 3
        then scan A is st
      else case analyze_element A (elements (doc st) ! i) (doc st) i of
        Inl e \<Rightarrow> Inl e
      | Inr None \<Rightarrow> scan A is st
      | Inr (Some decision) \<Rightarrow>
          if need_image decision then
            (let decision' =
               (if get_or (enabled (ab_test A)) False \<and> get_or (variations (ab_test A)) [] \<noteq> []
                then decision\<lparr>ab_variants :=
                       Some (generate_ab_variants (prompt decision)
                               (get_or (variations (ab_test A)) [])
                               (get_or (test_size (ab_test A)) 2))\<rparr>
                else decision)
             in scan A is
                  \<lparr>decisions = decisions st @ [decision'],
                   last_image_index = int i,
                   image_count = image_count st + 1,
                   doc = annotate (doc st) i (image_type decision') (prompt decision')\<rparr>)
          else scan A is st)"

text \<open>
  The cover of a document with no level-1 heading: the first element whose content is
  not blank gives the title. The decision is appended and the count of images goes up
  by one.
\<close>

definition synth_cover :: "ContentAnalyzer \<Rightarrow> pystr \<Rightarrow> scan_state \<Rightarrow> py_error + scan_state" where
  "synth_cover A dt st =
     (let els = elements (doc st) in
      case first_some (\<lambda>i. if content (els ! i) \<noteq> [] \<and> strip (content (els ! i)) \<noteq> []
                            then Some i else None) [0..<length els] of
        None \<Rightarrow> Inr st
      | Some title_index \<Rightarrow>
          (let title_element = els ! title_index;
               cover_source = determine_image_source A (u ''cover'') dt
           in case generate_prompt A title_element (doc st) (u ''cover'') cover_source of
                Inl e \<Rightarrow> Inl e
              | Inr cover_prompt \<Rightarrow>
                  Inr (st\<lparr>decisions := decisions st @
                            [\<lparr>element_index = title_index, need_image = True,
                              image_type = u ''cover'', prompt = cover_prompt,
                              reason = [26080, 72, 49, 26631, 39064, 65292, 33258, 21160,
                                        22312, 24320, 22836, 37197, 23553, 38754, 22270],
                              ab_variants = None, image_source = Some cover_source\<rparr>],
                          image_count := image_count st + 1,
                          doc := annotate (doc st) title_index (u ''cover'') cover_prompt\<rparr>)))"

text \<open>
  \<open>analyze\<close>: the decisions, and the document as the call leaves it. A classifier
  that raises is caught and gives the type \<open>'normal'\<close>.
\<close>

definition analyze ::
  "ContentAnalyzer \<Rightarrow> MarkdownDocument \<Rightarrow> py_error + (ImageDecision list \<times> MarkdownDocument)" where
  "analyze A doc0 =
     (let doc1 = doc0\<lparr>theme := analyze_theme A doc0\<rparr>;
          doc2 = doc1\<lparr>doc_keywords := extract_keywords A doc1\<rparr>;
          dt = (case classifier A of
                  None \<Rightarrow> u ''normal''
                | Some classify \<Rightarrow>
                    if use_intelligent A
                    then (case classify doc2 of
                            Inl e \<Rightarrow> u ''normal''
                          | Inr t \<Rightarrow> get_or t (u ''normal''))
                    else u ''normal'');
          doc3 = doc2\<lparr>doc_type := Some dt\<rparr>;
          st0 = \<lparr>decisions = [],
                 last_image_index = - get_or (min_gap_between_images (rules A)) 3,
                 image_count = 0, doc = doc3\<rparr>;
          has_h1 = list_ex (\<lambda>el. el_type el = HEADING \<and> level el = 1) (elements doc3)
      in case (if \<not> has_h1 \<and> get_or (h1_after (rules A)) True
               then synth_cover A dt st0 else Inr st0) of
           Inl e \<Rightarrow> Inl e
         | Inr st1 \<Rightarrow>
             (case scan A [0..<length (elements (doc st1))] st1 of
                Inl e \<Rightarrow> Inl e
              | Inr st2 \<Rightarrow> Inr (decisions st2, doc st2)))"


section \<open>regenerate.py: the markers of a previous output file\<close>

text \<open>
  \<open>ExistingImage\<close>; its fields \<open>image_type\<close> and \<open>prompt\<close> carry the prefix \<open>ex_\<close>.
  An index is an integer: a marker may give a negative one.
\<close>

record ExistingImage =
  index :: int
  ex_image_type :: pystr
  image_path :: pystr
  line_number :: nat
  is_failed :: bool
  ex_prompt :: pystr

text \<open>
  \<open>TYPE_NAMES\<close>, in the order of the dictionary. The labels are U+5C01 U+9762 U+56FE
  for \<open>cover\<close>, U+7AE0 U+8282 U+914D U+56FE for \<open>section\<close>, U+6982 U+5FF5 U+793A U+610F
  U+56FE for \<open>concept\<close>, U+6C1B U+56F4 U+63D2 U+56FE for \<open>atmospheric\<close>, U+67B6 U+6784
  U+56FE for \<open>diagram\<close> and U+4EE3 U+7801 U+7ED3 U+6784 U+56FE for \<open>code_concept\<close>.
\<close>

definition TYPE_NAMES :: "(pystr \<times> pystr) list" where
  "TYPE_NAMES =
     [(u ''cover'', [23553, 38754, 22270]),
      (u ''section'', [31456, 33410, 37197, 22270]),
      (u ''concept'', [27010, 24565, 31034, 24847, 22270]),
      (u ''atmospheric'', [27675, 22260, 25554, 22270]),
      (u ''diagram'', [26550, 26500, 22270]),
      (u ''code_concept'', [20195, 30721, 32467, 26500, 22270])]"

text \<open>
  The comment that marks a slot whose candidates all failed, the start of the comment
  that names the selected candidate (with and without the words that follow), and the
  words before the number of the selected candidate.
\<close>

definition FAILED_MARK :: pystr where
  "FAILED_MARK = u ''<!-- '' @ [25152, 26377, 20505, 36873, 22270, 29983, 25104, 22833, 36133]
                   @ u '' -->''"

definition CANDIDATE_FROM :: pystr where
  "CANDIDATE_FROM = u ''<!-- '' @ [20505, 36873, 22270, 65306, 20174]"

definition CANDIDATE :: pystr where
  "CANDIDATE = u ''<!-- '' @ [20505, 36873]"

definition SELECTED :: pystr where
  "SELECTED = [36873, 25321, 31532]"

text \<open>
  \<open>image_pattern\<close>, \<open>!\[([^\]]+)\]\(([^)]+)\)\<close>: the two groups of a match at the start
  of the string, and \<open>search\<close>, the match at the first place that has one.
\<close>

definition image_at :: "pystr \<Rightarrow> (pystr \<times> pystr) option" where
  "image_at s =
     (if startswith s [33, 91] then
        (let r = drop 2 s; alt = takeWhile (\<lambda>c. c \<noteq> 93) r; r2 = drop (length alt) r
         in if alt \<noteq> [] \<and> startswith r2 [93, 40] then
              (let r3 = drop 2 r2; path = takeWhile (\<lambda>c. c \<noteq> 41) r3;
                   r4 = drop (length path) r3
               in if path \<noteq> [] \<and> r4 \<noteq> [] then Some (alt, path) else None)
            else None)
      else None)"

fun image_search :: "pystr \<Rightarrow> (pystr \<times> pystr) option" where
  "image_search [] = None"
| "image_search (c # cs) =
     (case image_at (c # cs) of Some m \<Rightarrow> Some m | None \<Rightarrow> image_search cs)"

text \<open>
  The pattern of the selected candidate, the words \<open>SELECTED\<close>, \<open>(\d+)\<close> and U+5F20:
  the group of the first match.
\<close>

definition selected_at :: "unitab \<Rightarrow> pystr \<Rightarrow> pystr option" where
  "selected_at T s =
     (if startswith s SELECTED then
        (let r = drop 3 s; d = length (takeWhile (\<lambda>c. decimal T c \<noteq> None) r)
         in first_some (\<lambda>j. if startswith (drop j r) [24352] then Some (take j r) else None)
              (rev [1..<Suc d]))
      else None)"

fun selected_search :: "unitab \<Rightarrow> pystr \<Rightarrow> pystr option" where
  "selected_search T [] = None"
| "selected_search T (c # cs) =
     (case selected_at T (c # cs) of Some g \<Rightarrow> Some g | None \<Rightarrow> selected_search T cs)"

text \<open>
  \<open>int(s)\<close> on a string of decimal digits. Interpreters that limit the conversion
  raise \<open>ValueError\<close> beyond 4300 digits.
\<close>

definition py_int :: "unitab \<Rightarrow> pystr \<Rightarrow> py_error + int" where
  "py_int T ds =
     (if length ds > 4300 then Inl ValueError
      else Inr (int (foldl (\<lambda>acc c. 10 * acc + (case decimal T c of Some v \<Rightarrow> v | None \<Rightarrow> 0))
                       0 ds)))"

text \<open>
  \<open>s.count(sub)\<close>: the occurrences that do not overlap, from the left.
\<close>

fun count_from :: "pystr \<Rightarrow> pystr \<Rightarrow> nat \<Rightarrow> nat" where
  "count_from sub [] skip = 0"
| "count_from sub (c # cs) skip =
     (if skip > 0 then count_from sub cs (skip - 1)
      else if startswith (c # cs) sub then 1 + count_from sub cs (length sub - 1)
      else count_from sub cs 0)"

definition count_str :: "pystr \<Rightarrow> pystr \<Rightarrow> nat" where
  "count_str s sub = (if sub = [] then length s + 1 else count_from sub s 0)"

text \<open>\<open>lines[a:b]\<close> for indices that are not negative.\<close>

definition slice :: "'a list \<Rightarrow> nat \<Rightarrow> nat \<Rightarrow> 'a list" where
  "slice xs a b = take (b - a) (drop a xs)"


section \<open>regenerate.py: MarkdownRegenerateParser\<close>

text \<open>
  \<open>_parse_image_type_from_context\<close>: the kind of a diagram block from the lines around
  it, else from the diagram's own keyword, else none.
\<close>

definition parse_image_type_from_context :: "pystr list \<Rightarrow> nat \<Rightarrow> nat \<Rightarrow> pystr option" where
  "parse_image_type_from_context lines start_line end_line =
     (let context_start = start_line - 10;
          context_end = min (length lines) (end_line + 5);
          ctx = join [NL] (slice lines context_start context_end);
          by_name = (\<lambda>(img_type, cn_name). if contains cn_name ctx then Some img_type else None);
          by_caption = (\<lambda>(img_type, cn_name).
             if contains ([25991, 31456] @ filter (\<lambda>c. c \<noteq> 22270) cn_name) ctx
               then Some (if img_type = u ''cover'' then u ''cover'' else img_type)
             else if contains cn_name ctx then Some img_type
             else None);
          mermaid_code = join [NL] (slice lines start_line end_line)
      in case (if contains CANDIDATE_FROM ctx then first_some by_name TYPE_NAMES else None) of
           Some t \<Rightarrow> Some t
         | None \<Rightarrow>
             (case first_some by_caption TYPE_NAMES of
                Some t \<Rightarrow> Some t
              | None \<Rightarrow>
                  if contains (u ''stateDiagram'') mermaid_code then Some (u ''concept'')
                  else if contains (u ''sequenceDiagram'') mermaid_code then Some (u ''section'')
                  else if contains (u ''flowchart'') mermaid_code then Some (u ''code_concept'')
                  else if contains (u ''classDiagram'') mermaid_code then Some (u ''concept'')
                  else if contains (u ''mindmap'') mermaid_code then Some (u ''cover'')
                  else None))"

text \<open>
  \<open>_parse_image_info_from_context\<close>. The first loop goes up to ten lines back for a
  comment that names the selected candidate; the result of the function is the pair of
  the source, \<open>(None, None)\<close> when nothing is found.
\<close>

fun candidate_loop ::
  "unitab \<Rightarrow> pystr list \<Rightarrow> nat list \<Rightarrow> py_error + (pystr \<times> int) option" where
  "candidate_loop T lines [] = Inr None"
| "candidate_loop T lines (i # is) =
     (let line = strip (lines ! i) in
      if contains CANDIDATE_FROM line then candidate_loop T lines is
      else if startswith line CANDIDATE \<and> contains SELECTED line then
        (case (case selected_search T line of
                 Some g \<Rightarrow> (case py_int T g of Inl e \<Rightarrow> Inl e | Inr n \<Rightarrow> Inr (n - 1))
               | None \<Rightarrow> Inr 0) of
           Inl e \<Rightarrow> Inl e
         | Inr idx \<Rightarrow>
             (case first_some (\<lambda>(img_type, cn_name).
                      if contains cn_name line \<or> contains img_type (lower T line)
                      then Some img_type else None) TYPE_NAMES of
                Some t \<Rightarrow> Inr (Some (t, idx))
              | None \<Rightarrow> candidate_loop T lines is))
      else candidate_loop T lines is)"

definition parse_image_info_from_context ::
  "unitab \<Rightarrow> pystr list \<Rightarrow> nat \<Rightarrow> py_error + (pystr option \<times> int option)" where
  "parse_image_info_from_context T lines line_num =
     (case candidate_loop T lines [line_num - 10..<line_num] of
        Inl e \<Rightarrow> Inl e
      | Inr (Some (t, idx)) \<Rightarrow> Inr (Some t, Some idx)
      | Inr None \<Rightarrow>
          if line_num > 0 then
            (let prev_lines = join [NL] (slice lines (line_num - 5) line_num)
             in case first_some (\<lambda>(img_type, cn_name).
                       if contains cn_name prev_lines
                       then Some (img_type, int (count_str prev_lines cn_name) - 1)
                       else None) TYPE_NAMES of
                  Some (t, idx) \<Rightarrow> Inr (Some t, Some idx)
                | None \<Rightarrow> Inr (None, None))
          else Inr (None, None))"

text \<open>\<open>_parse_image_info_from_alt_text\<close>: the pair that the source returns.\<close>

definition parse_image_info_from_alt_text :: "pystr \<Rightarrow> pystr option \<times> int option" where
  "parse_image_info_from_alt_text alt_text =
     (case first_some (\<lambda>(img_type, cn_name).
              if contains cn_name alt_text then Some img_type else None) TYPE_NAMES of
        Some t \<Rightarrow> (Some t, None)
      | None \<Rightarrow> (None, None))"

definition is_auto_generated_image :: "pystr \<Rightarrow> bool" where
  "is_auto_generated_image alt_text =
     list_ex (\<lambda>cn_name. contains cn_name alt_text) (map snd TYPE_NAMES)"

text \<open>
  The last part of the loop body of \<open>parse_existing_images\<close>, for a line that is
  neither in a diagram block nor a failure comment: the image that the line adds to
  the list, if any.
\<close>

definition standard_image :: "pystr \<Rightarrow> nat \<Rightarrow> ExistingImage option" where
  "standard_image line line_num =
     (case image_search line of
        None \<Rightarrow> None
      | Some (alt_text, path) \<Rightarrow>
          if \<not> is_auto_generated_image alt_text then None
          else if startswith path (u ''MERMAID_CODE:'') then None
          else (case parse_image_info_from_alt_text alt_text of
                  (Some t, Some idx) \<Rightarrow>
                    if t \<noteq> [] then
                      Some \<lparr>index = idx, ex_image_type = t, image_path = path,
                            line_number = line_num, is_failed = False, ex_prompt = []\<rparr>
                    else None
                | _ \<Rightarrow> None))"

text \<open>The variables of \<open>parse_existing_images\<close> that its loop changes.\<close>

record pe_state =
  in_mermaid_block :: bool
  mermaid_lines :: "pystr list"
  mermaid_start_line :: nat
  type_counters :: "pystr \<Rightarrow> nat option"
  existing_images :: "ExistingImage list"

definition MERMAID_KEYWORDS :: "pystr list" where
  "MERMAID_KEYWORDS =
     [u ''statediagram'', u ''sequencediagram'', u ''flowchart'', u ''flowchart TD'',
      u ''classdiagram'', u ''mindmap'', u ''gantt'', u ''erdiagram'']"

text \<open>
  The loop of \<open>parse_existing_images\<close> over the numbers of the lines that are left.
  \<open>type_counters[image_type]\<close> raises \<open>KeyError\<close> for a kind that is no key.
\<close>

fun pe_loop :: "unitab \<Rightarrow> pystr list \<Rightarrow> nat list \<Rightarrow> pe_state \<Rightarrow> py_error + pe_state" where
  "pe_loop T lines [] st = Inr st"
| "pe_loop T lines (line_num # rest) st =
     (let line = lines ! line_num;
          line_stripped = strip line;
          next_next_line = (if line_num + 2 < length lines
                            then strip (lines ! (line_num + 2)) else []);
          has_mermaid_keywords =
            list_ex (\<lambda>keyword. contains keyword (lower T next_next_line)) MERMAID_KEYWORDS
      in
      if startswith line_stripped [96, 96, 96]
         \<and> (contains (u ''mermaid'') (lower T line_stripped) \<or> has_mermaid_keywords)
      then pe_loop T lines rest
             (st\<lparr>in_mermaid_block := True, mermaid_start_line := line_num,
                 mermaid_lines := []\<rparr>)
      else if in_mermaid_block st then
        (if startswith (strip line) [96, 96, 96] \<and> \<not> contains (u ''mermaid'') line then
           (case parse_image_type_from_context lines (mermaid_start_line st) line_num of
              None \<Rightarrow>
                pe_loop T lines rest (st\<lparr>in_mermaid_block := False, mermaid_lines := []\<rparr>)
            | Some t \<Rightarrow>
                if t = [] then
                  pe_loop T lines rest (st\<lparr>in_mermaid_block := False, mermaid_lines := []\<rparr>)
                else
                  (case type_counters st t of
                     None \<Rightarrow> Inl KeyError
                   | Some idx \<Rightarrow>
                       pe_loop T lines rest
                         (st\<lparr>in_mermaid_block := False,
                             mermaid_lines := [],
                             type_counters := (type_counters st)(t \<mapsto> idx + 1),
                             existing_images := existing_images st @
                               [\<lparr>index = int idx, ex_image_type = t,
                                 image_path = u ''MERMAID_CODE:'' @ t @ [58]
                                              @ join [NL] (mermaid_lines st),
                                 line_number = mermaid_start_line st,
                                 is_failed = False, ex_prompt = []\<rparr>]\<rparr>)))
         else if \<not> startswith (strip line) (u ''```mermaid'') then
           pe_loop T lines rest (st\<lparr>mermaid_lines := mermaid_lines st @ [rstrip line]\<rparr>)
         else pe_loop T lines rest st)
      else if contains FAILED_MARK line then
        (case parse_image_info_from_context T lines line_num of
           Inl e \<Rightarrow> Inl e
         | Inr (Some t, Some idx) \<Rightarrow>
             if t \<noteq> [] then
               pe_loop T lines rest
                 (st\<lparr>existing_images := existing_images st @
                        [\<lparr>index = idx, ex_image_type = t, image_path = [],
                          line_number = line_num, is_failed = True, ex_prompt = []\<rparr>]\<rparr>)
             else pe_loop T lines rest st
         | Inr _ \<Rightarrow> pe_loop T lines rest st)
      else
        (case standard_image line line_num of
           None \<Rightarrow> pe_loop T lines rest st
         | Some img \<Rightarrow>
             pe_loop T lines rest (st\<lparr>existing_images := existing_images st @ [img]\<rparr>)))"

text \<open>
  \<open>parse_existing_images\<close>. The file is the list of its lines as \<open>readlines\<close> gives
  them (each with the newline that ends it), or \<open>None\<close> when the path does not exist.
  The second component of the source's result, the lines themselves, is left out.
\<close>

definition parse_existing_images ::
  "unitab \<Rightarrow> pystr list option \<Rightarrow> py_error + ExistingImage list" where
  "parse_existing_images T file =
     (case file of
        None \<Rightarrow> Inr []
      | Some lines \<Rightarrow>
          (case pe_loop T lines [0..<length lines]
                  \<lparr>in_mermaid_block = False, mermaid_lines = [], mermaid_start_line = 0,
                   type_counters = map_of (map (\<lambda>(img_type, _). (img_type, 0)) TYPE_NAMES),
                   existing_images = []\<rparr> of
             Inl e \<Rightarrow> Inl e
           | Inr st \<Rightarrow> Inr (existing_images st)))"

text \<open>
  \<open>filter_images_to_regenerate\<close>. A selector that is \<open>None\<close> or the empty string is
  not active; \<open>sorted(set(...))\<close> ends the function.
\<close>

definition filter_images_to_regenerate ::
  "ExistingImage list \<Rightarrow> ImageDecision list \<Rightarrow> int option \<Rightarrow> pystr option \<Rightarrow> bool \<Rightarrow> int list"
where
  "filter_images_to_regenerate existing ds regenerate_index regenerate_type regenerate_failed =
     sort (remdups
       (case regenerate_index of
          Some ri \<Rightarrow> if 0 \<le> ri \<and> ri < int (length ds) then [ri] else []
        | None \<Rightarrow>
            if regenerate_type \<noteq> None \<and> regenerate_type \<noteq> Some []
            then map int (filter (\<lambda>i. Some (image_type (ds ! i)) = regenerate_type)
                            [0..<length ds])
            else if regenerate_failed
            then map index (filter (\<lambda>img. is_failed img \<and> index img < int (length ds)) existing)
            else []))"

text \<open>The entries of a plan: one of \<open>keep\<close>, and one of \<open>regenerate\<close> or \<open>missing\<close>.\<close>

record KeepItem =
  k_index :: nat
  k_image_path :: pystr
  k_image_type :: pystr

record TodoItem =
  t_index :: nat
  t_image_type :: pystr
  t_prompt :: pystr
  t_reason :: pystr

record Plan =
  keep :: "KeepItem list"
  regenerate :: "TodoItem list"
  missing :: "TodoItem list"

definition todo_item :: "nat \<Rightarrow> ImageDecision \<Rightarrow> TodoItem" where
  "todo_item i decision =
     \<lparr>t_index = i, t_image_type = image_type decision, t_prompt = prompt decision,
      t_reason = reason decision\<rparr>"

text \<open>
  The loop of \<open>create_regenerate_plan\<close>, \<open>for i, decision in enumerate(decisions)\<close>.
  \<open>next(...)\<close> raises \<open>StopIteration\<close> when no image has the index.
\<close>

fun plan_loop ::
  "ExistingImage list \<Rightarrow> int list \<Rightarrow> nat \<Rightarrow> ImageDecision list \<Rightarrow> Plan \<Rightarrow> py_error + Plan" where
  "plan_loop existing regenerate_indices i [] plan = Inr plan"
| "plan_loop existing regenerate_indices i (decision # ds) plan =
     (if int i \<in> set regenerate_indices then
        plan_loop existing regenerate_indices (i + 1) ds
          (plan\<lparr>regenerate := regenerate plan @ [todo_item i decision]\<rparr>)
      else if int i \<in> index ` set existing then
        (case find (\<lambda>img. index img = int i) existing of
           None \<Rightarrow> Inl StopIteration
         | Some existing_img \<Rightarrow>
             plan_loop existing regenerate_indices (i + 1) ds
               (plan\<lparr>keep := keep plan @
                  [\<lparr>k_index = i, k_image_path = image_path existing_img,
                    k_image_type = ex_image_type existing_img\<rparr>]\<rparr>))
      else
        plan_loop existing regenerate_indices (i + 1) ds
          (plan\<lparr>missing := missing plan @ [todo_item i decision]\<rparr>))"

definition create_regenerate_plan ::
  "ExistingImage list \<Rightarrow> ImageDecision list \<Rightarrow> int list \<Rightarrow> py_error + Plan" where
  "create_regenerate_plan existing ds regenerate_indices =
     plan_loop existing regenerate_indices 0 ds \<lparr>keep = [], regenerate = [], missing = []\<rparr>"

definition parse_for_regeneration ::
  "unitab \<Rightarrow> pystr list option \<Rightarrow> ImageDecision list \<Rightarrow> int option \<Rightarrow> pystr option \<Rightarrow> bool
     \<Rightarrow> py_error + Plan" where
  "parse_for_regeneration T file ds regenerate_index regenerate_type regenerate_failed =
     (case parse_existing_images T file of
        Inl e \<Rightarrow> Inl e
      | Inr existing \<Rightarrow>
          create_regenerate_plan existing ds
            (filter_images_to_regenerate existing ds regenerate_index regenerate_type
               regenerate_failed))"


section \<open>Inputs and conditions that the properties are stated with\<close>

text \<open>
  The condition on a line that its last characters are three or more asterisks.
\<close>

definition ends_in_asterisks :: "pystr \<Rightarrow> bool" where
  "ends_in_asterisks line = (3 \<le> length (takeWhile (\<lambda>c. c = 42) (rev line)))"


text \<open>
  The number of code-fence lines among the first \<open>k\<close> lines; line \<open>j\<close> is inside a
  fenced block when an odd number of fence lines stands before it.
\<close>

definition fences :: "unitab \<Rightarrow> pystr list \<Rightarrow> nat \<Rightarrow> nat" where
  "fences T lines k = length (filter (CODE_BLOCK_PATTERN T) (take k lines))"

definition inside_fence :: "unitab \<Rightarrow> pystr list \<Rightarrow> nat \<Rightarrow> bool" where
  "inside_fence T lines j = odd (fences T lines j)"

text \<open>
  The element \<open>e\<close> holds line \<open>j\<close>: its content is made of a run of consecutive lines
  that has line \<open>j\<close> in it, joined by spaces in a paragraph when the line is outside
  every fenced block, and joined by newlines in a code block when it is inside one.
  \<open>covered\<close> says that some element of a list holds the line.
\<close>

definition holds_line :: "unitab \<Rightarrow> pystr list \<Rightarrow> nat \<Rightarrow> MarkdownElement \<Rightarrow> bool" where
  "holds_line T lines j e =
     list_ex (\<lambda>a. list_ex (\<lambda>b.
         if inside_fence T lines j
         then el_type e = CODE_BLOCK \<and> content e = join [NL] (slice lines a b)
         else el_type e = PARAGRAPH \<and> content e = join [32] (slice lines a b))
       [Suc j..<Suc (length lines)]) [0..<Suc j]"



text \<open>
  An analyzer with the given rules and nothing else configured: no classifier, no
  variants, the default source \<open>zhipu\<close>, and a prompt generator that returns the
  content of the element, as the templates \<open>{title}\<close> for a cover and \<open>{topic}\<close> for
  the other kinds do on a content of at most 100 characters.
\<close>

definition plain_analyzer :: "Rules \<Rightarrow> ContentAnalyzer" where
  "plain_analyzer r =
     \<lparr>rules = r,
      ab_test = \<lparr>enabled = None, variations = None, test_size = None\<rparr>,
      self_image_source = u ''zhipu'', use_intelligent = False, classifier = None,
      generate_prompt = (\<lambda>element d ty src. Inr (content element)),
      analyze_theme = title, extract_keywords = (\<lambda>d. [])\<rparr>"

definition no_rules :: Rules where
  "no_rules = \<lparr>h1_after = None, h2_after = None, long_paragraph_threshold = None,
      min_gap_between_images = None, max_images_per_article = None\<rparr>"

text \<open>
  The first two steps of the pipeline of \<open>main.py\<close>: the text is parsed and the
  document analyzed; the result is the list of decisions.
\<close>

definition parse_and_analyze ::
  "ContentAnalyzer \<Rightarrow> pystr \<Rightarrow> (py_error + ImageDecision list) option" where
  "parse_and_analyze A text =
     (case parse ascii_cjk text of
        None \<Rightarrow> None
      | Some (Inl e) \<Rightarrow> Some (Inl e)
      | Some (Inr d) \<Rightarrow> Some (map_sum id fst (analyze A d)))"

text \<open>
  What is read off a list of decisions below: the element and the kind of each.
\<close>

definition slots :: "ImageDecision list \<Rightarrow> (nat \<times> pystr) list" where
  "slots ds = map (\<lambda>d. (element_index d, image_type d)) ds"

text \<open>
  The documents of the texts \<open>abc\<close> (one paragraph) and of \<open>a\<close>, an empty line and
  \<open>bcd\<close> (two paragraphs).
\<close>

definition doc_abc :: MarkdownDocument where
  "doc_abc =
     \<lparr>elements = [mk_element PARAGRAPH (u ''abc'') 0 (u ''abc'')],
      title = u ''Untitled'', theme = [], doc_keywords = [], doc_type = None\<rparr>"

definition doc_a_bcd :: MarkdownDocument where
  "doc_a_bcd =
     \<lparr>elements = [mk_element PARAGRAPH (u ''a'') 0 (u ''a''),
                  (mk_element PARAGRAPH (u ''bcd'') 0 (u ''bcd''))\<lparr>position := 1\<rparr>],
      title = u ''Untitled'', theme = [], doc_keywords = [], doc_type = None\<rparr>"

text \<open>
  The condition for keeping a decision as the specification words it: the ordinal is
  not selected for regeneration, and an image was recovered with this ordinal, the
  kind of the decision and no failure mark.
\<close>

definition spec_keep_condition ::
  "ExistingImage list \<Rightarrow> int list \<Rightarrow> ImageDecision list \<Rightarrow> nat \<Rightarrow> bool" where
  "spec_keep_condition existing regenerate_indices ds i =
     (int i \<notin> set regenerate_indices \<and>
      list_ex (\<lambda>img. index img = int i \<and> ex_image_type img = image_type (ds ! i)
                     \<and> \<not> is_failed img) existing)"

text \<open>The ordinals in the three buckets of a plan: keep, regenerate, missing.\<close>

definition plan_indices :: "Plan \<Rightarrow> nat list \<times> nat list \<times> nat list" where
  "plan_indices p = (map k_index (keep p), map t_index (regenerate p), map t_index (missing p))"

text \<open>
  Two decisions, a cover and a section, and a recovered cover with ordinal 0 that is
  marked failed.
\<close>

definition cover_decision :: ImageDecision where
  "cover_decision =
     \<lparr>element_index = 0, need_image = True, image_type = u ''cover'', prompt = u ''Title'',
      reason = [], ab_variants = None, image_source = Some (u ''zhipu'')\<rparr>"

definition section_decision :: ImageDecision where
  "section_decision =
     \<lparr>element_index = 1, need_image = True, image_type = u ''section'', prompt = u ''Part'',
      reason = [], ab_variants = None, image_source = Some (u ''unsplash'')\<rparr>"

definition failed_cover :: ExistingImage where
  "failed_cover =
     \<lparr>index = 0, ex_image_type = u ''cover'', image_path = [], line_number = 2,
      is_failed = True, ex_prompt = []\<rparr>"

text \<open>
  Lines of an output file: an image whose alternative text starts with the label of
  a cover, and one with the label of a section, each as the assembler writes it
  (label, dash, content of the element).
\<close>

definition cover_line :: pystr where
  "cover_line = u ''!['' @ [23553, 38754, 22270] @ u '' - Title](images/cover.png)'' @ [NL]"

definition section_line :: pystr where
  "section_line =
     u ''!['' @ [31456, 33410, 37197, 22270] @ u '' - Part](images/part.png)'' @ [NL]"

text \<open>
  Two output files with a failed cover and a section image. In the first the failure
  comment follows the title, as the assembler writes it. In the second a comment
  with the label of a cover stands before the failure comment, so that the failure is
  attributed to a cover.
\<close>

definition assembled_file :: "pystr list" where
  "assembled_file =
     [u ''# Title'' @ [NL], FAILED_MARK @ [NL], u ''## Part'' @ [NL], section_line]"

definition labelled_file :: "pystr list" where
  "labelled_file =
     [u ''# Title'' @ [NL], u ''<!-- '' @ [23553, 38754, 22270] @ u '' -->'' @ [NL],
      FAILED_MARK @ [NL], u ''## Part'' @ [NL], section_line]"

section \<open>The parser\<close>

lemmas pattern_defs = EMPTY_PATTERN_def HEADING_PATTERN_def CODE_BLOCK_PATTERN_def
  QUOTE_PATTERN_def LIST_PATTERN_def list_marker_def TABLE_PATTERN_def bar_end_def
  HR_PATTERN_def run_of_def eol_body_def startswith_def isspace_def NL_def u_def
  ascii_cjk_def Let_def

lemmas parser_defs = parse_def parse_loop.simps parse_line_def parse_paragraph_def
  paragraph_stop_def extract_title_def get_headings_def mk_element_def





lemma paragraph_fallback:
  assumes "i < length lines"
    and "\<not> EMPTY_PATTERN (lines ! i)" and "HEADING_PATTERN (lines ! i) = None"
    and "\<not> CODE_BLOCK_PATTERN T (lines ! i)" and "QUOTE_PATTERN (lines ! i) = None"
    and "\<not> LIST_PATTERN T (lines ! i)" and "\<not> TABLE_PATTERN (lines ! i)"
    and "\<not> HR_PATTERN (lines ! i)"
  shows "\<exists>el n. parse_line T lines i = Inr (Some el, n) \<and> el_type el = PARAGRAPH \<and> 1 \<le> n
     \<and> startswith (content el) (lines ! i)"
proof -
  have ns: "\<not> paragraph_stop T (lines ! i)"
    using assms by (simp add: paragraph_stop_def)
  have d: "drop i lines = lines ! i # drop (Suc i) lines"
    using assms(1) by (simp add: Cons_nth_drop_Suc)
  have j: "startswith (join sep (x # xs)) x" for sep x xs
    by (cases xs) (simp_all add: startswith_def)
  show ?thesis
    using assms ns by (simp add: parse_line_def parse_paragraph_def Let_def mk_element_def d j)
qed

lemma note_line_patterns:
  "\<not> EMPTY_PATTERN (u ''note ***'')" "HEADING_PATTERN (u ''note ***'') = None"
  "\<not> CODE_BLOCK_PATTERN ascii_cjk (u ''note ***'')" "QUOTE_PATTERN (u ''note ***'') = None"
  "\<not> LIST_PATTERN ascii_cjk (u ''note ***'')" "\<not> TABLE_PATTERN (u ''note ***'')"
  "\<not> HR_PATTERN (u ''note ***'')"
  by (simp_all add: pattern_defs)

subsection \<open>Where a plain line goes\<close>















lemma holds_line_position [simp]:
  "holds_line T lines j (e\<lparr>position := k\<rparr>) = holds_line T lines j e"
  by (simp add: holds_line_def)












text \<open>
  A line that ends in three asterisks matches \<open>HR_PATTERN\<close> exactly when it has no
  other character.
\<close>

lemma hr_of_asterisk_tail:
  assumes "ends_in_asterisks line"
  shows "HR_PATTERN line = list_all (\<lambda>c. c = 42) line"
proof -
  from assms have ne: "line \<noteq> []" and len: "3 \<le> length line"
    using length_takeWhile_le [of "\<lambda>c. c = 42" "rev line"]
    by (auto simp: ends_in_asterisks_def)
  have "rev line \<noteq> []" using ne by simp
  then obtain c cs where rl: "rev line = c # cs" by (cases "rev line") auto
  with assms have "c = 42" by (auto simp: ends_in_asterisks_def split: if_splits)
  then have l: "last line = 42" using rl by (metis last_rev list.sel(1) rev_rev_ident)
  have "42 \<in> set line" using l ne by (metis last_in_set)
  then have no: "\<not> list_all (\<lambda>x. x = c') line" if "c' \<noteq> 42" for c'
    using that by (auto simp: list_all_iff)
  show ?thesis
    using l len no [of 45] no [of 95] by (simp add: HR_PATTERN_def run_of_def NL_def)
qed

text \<open>
  Claim C10, as stated, fails: the line \<open>note ***\<close> is not empty, is no heading, code
  fence, quote, list item or table row, and ends in three asterisks, and \<open>_parse_line\<close>
  makes a paragraph of it.
\<close>

theorem prose_asterisks_counterexample:
  "\<not> EMPTY_PATTERN (u ''note ***'') \<and> HEADING_PATTERN (u ''note ***'') = None
   \<and> \<not> CODE_BLOCK_PATTERN ascii_cjk (u ''note ***'') \<and> QUOTE_PATTERN (u ''note ***'') = None
   \<and> \<not> LIST_PATTERN ascii_cjk (u ''note ***'') \<and> \<not> TABLE_PATTERN (u ''note ***'')
   \<and> ends_in_asterisks (u ''note ***'')
   \<and> parse_line ascii_cjk [u ''note ***''] 0
       = Inr (Some (mk_element PARAGRAPH (u ''note ***'') 0 (u ''note ***'')), 1)"
proof -
  have e: "ends_in_asterisks (u ''note ***'')"
    by (simp add: ends_in_asterisks_def u_def)
  have s: "\<not> paragraph_stop ascii_cjk (u ''note ***'')"
    by (simp add: paragraph_stop_def note_line_patterns)
  have "parse_line ascii_cjk [u ''note ***''] 0
       = Inr (Some (mk_element PARAGRAPH (u ''note ***'') 0 (u ''note ***'')), 1)"
    by (simp add: parse_line_def parse_paragraph_def Let_def note_line_patterns s)
  with e note_line_patterns show ?thesis by simp
qed

text \<open>
  Claim C10, amended. A line that is not empty, is no heading, code fence, quote, list
  item or table row, and ends in three or more asterisks is a horizontal rule when
  all its characters are asterisks, and a paragraph when it has any other character:
  \<open>match\<close> starts the asterisk alternative at the first character of the line.
\<close>

theorem asterisk_rule:
  assumes "i < length lines"
    and "\<not> EMPTY_PATTERN (lines ! i)" and "HEADING_PATTERN (lines ! i) = None"
    and "\<not> CODE_BLOCK_PATTERN T (lines ! i)" and "QUOTE_PATTERN (lines ! i) = None"
    and "\<not> LIST_PATTERN T (lines ! i)" and "\<not> TABLE_PATTERN (lines ! i)"
    and "ends_in_asterisks (lines ! i)"
  shows "\<exists>el n. parse_line T lines i = Inr (Some el, n) \<and>
           el_type el = (if list_all (\<lambda>c. c = 42) (lines ! i)
                         then HORIZONTAL_RULE else PARAGRAPH)"
proof (cases "list_all (\<lambda>c. c = 42) (lines ! i)")
  case True
  then have "HR_PATTERN (lines ! i)"
    using hr_of_asterisk_tail [OF assms(8)] by simp
  then show ?thesis
    using assms True by (simp add: parse_line_def Let_def mk_element_def)
next
  case False
  then have "\<not> HR_PATTERN (lines ! i)"
    using hr_of_asterisk_tail [OF assms(8)] by simp
  from paragraph_fallback [OF assms(1-7) this] show ?thesis
    using False by auto
qed

theorem asterisk_rule_witness:
  "0 < length [u ''***''] \<and> \<not> EMPTY_PATTERN ([u ''***''] ! 0)
   \<and> HEADING_PATTERN ([u ''***''] ! 0) = None
   \<and> \<not> CODE_BLOCK_PATTERN ascii_cjk ([u ''***''] ! 0)
   \<and> QUOTE_PATTERN ([u ''***''] ! 0) = None
   \<and> \<not> LIST_PATTERN ascii_cjk ([u ''***''] ! 0)
   \<and> \<not> TABLE_PATTERN ([u ''***''] ! 0)
   \<and> ends_in_asterisks ([u ''***''] ! 0)
   \<and> (\<exists>el n. parse_line ascii_cjk [u ''***''] 0 = Inr (Some el, n) \<and>
           el_type el = (if list_all (\<lambda>c. c = 42) ([u ''***''] ! 0)
                         then HORIZONTAL_RULE else PARAGRAPH))"
proof -
  have h: "\<not> EMPTY_PATTERN ([u ''***''] ! 0)" "HEADING_PATTERN ([u ''***''] ! 0) = None"
    "\<not> CODE_BLOCK_PATTERN ascii_cjk ([u ''***''] ! 0)" "QUOTE_PATTERN ([u ''***''] ! 0) = None"
    "\<not> LIST_PATTERN ascii_cjk ([u ''***''] ! 0)" "\<not> TABLE_PATTERN ([u ''***''] ! 0)"
    by (simp_all add: pattern_defs)
  have e: "ends_in_asterisks ([u ''***''] ! 0)"
    by (simp add: ends_in_asterisks_def u_def)
  have l: "0 < length [u ''***'']" by simp
  from asterisk_rule [OF l h e] h e l show ?thesis by blast
qed


section \<open>The placement engine\<close>

lemmas analyzer_defs = analyze_def synth_cover_def analyze_element_def
  create_cover_decision_def create_section_decision_def create_atmospheric_decision_def
  determine_image_source_def should_add_section_image_def annotate_def get_or_def
  plain_analyzer_def no_rules_def mk_element_def strip_def lstrip_def rstrip_def
  isspace_def slots_def u_def Let_def

lemma parse_abc: "parse ascii_cjk (u ''abc'') = Some (Inr doc_abc)"
  by (simp add: parser_defs pattern_defs doc_abc_def)

lemma parse_a_bcd: "parse ascii_cjk (u ''a'' @ [NL, NL] @ u ''bcd'') = Some (Inr doc_a_bcd)"
  by (simp add: parser_defs pattern_defs doc_a_bcd_def)

text \<open>
  Claim C8. \<open>_determine_image_source\<close> gives the configured source for a cover;
  \<open>mermaid\<close> for a section, a concept or a diagram of a technical document;
  \<open>unsplash\<close> for every kind but the cover in a normal document; the configured source
  in every other case. Its result depends on the kind, the document type and the
  configured source only, so two calls with the same arguments agree.
\<close>

theorem determine_image_source_policy:
  "determine_image_source A (u ''cover'') dt = self_image_source A \<and>
   (ty \<in> {u ''section'', u ''concept'', u ''diagram''}
      \<longrightarrow> determine_image_source A ty (u ''technical'') = u ''mermaid'') \<and>
   (ty \<noteq> u ''cover'' \<longrightarrow> determine_image_source A ty (u ''normal'') = u ''unsplash'') \<and>
   (ty \<noteq> u ''cover'' \<and> dt \<noteq> u ''normal''
      \<and> \<not> (dt = u ''technical'' \<and> ty \<in> {u ''section'', u ''concept'', u ''diagram''})
      \<longrightarrow> determine_image_source A ty dt = self_image_source A) \<and>
   (self_image_source A' = self_image_source A
      \<longrightarrow> determine_image_source A' ty dt = determine_image_source A ty dt)"
  by (auto simp: determine_image_source_def u_def)

theorem determine_image_source_policy_witness:
  "determine_image_source (plain_analyzer no_rules) (u ''cover'') (u ''other'') = u ''zhipu'' \<and>
   u ''section'' \<in> {u ''section'', u ''concept'', u ''diagram''} \<and>
   determine_image_source (plain_analyzer no_rules) (u ''section'') (u ''technical'')
     = u ''mermaid'' \<and>
   u ''section'' \<noteq> u ''cover'' \<and>
   determine_image_source (plain_analyzer no_rules) (u ''section'') (u ''normal'')
     = u ''unsplash'' \<and>
   u ''other'' \<noteq> u ''normal'' \<and>
   \<not> (u ''other'' = u ''technical''
        \<and> u ''section'' \<in> {u ''section'', u ''concept'', u ''diagram''}) \<and>
   determine_image_source (plain_analyzer no_rules) (u ''section'') (u ''other'') = u ''zhipu'' \<and>
   self_image_source (plain_analyzer (no_rules\<lparr>h1_after := Some False\<rparr>))
     = self_image_source (plain_analyzer no_rules) \<and>
   determine_image_source (plain_analyzer (no_rules\<lparr>h1_after := Some False\<rparr>))
       (u ''section'') (u ''other'')
     = determine_image_source (plain_analyzer no_rules) (u ''section'') (u ''other'')"
proof -
  have s: "self_image_source (plain_analyzer r) = u ''zhipu''" for r
    by (simp add: plain_analyzer_def)
  have n: "u ''section'' \<noteq> u ''cover''" "u ''other'' \<noteq> u ''normal''"
    "u ''other'' \<noteq> u ''technical''"
    by (simp_all add: u_def)
  show ?thesis
    using determine_image_source_policy
            [of "plain_analyzer no_rules" "u ''other''" "u ''section''"
                "plain_analyzer (no_rules\<lparr>h1_after := Some False\<rparr>)"] s n
    by simp
qed

text \<open>
  Claim C1 fails on the code. The text is the paragraph \<open>a\<close>, an empty line and the
  paragraph \<open>bcd\<close>; the rules are the defaults but for a paragraph threshold of 3, so
  the least gap between images is 3. The document has no level-1 heading: \<open>analyze\<close>
  puts the cover on element 0 and leaves \<open>last_image_index\<close> as it was, and the main
  loop accepts element 1. The two decisions are one element apart.
\<close>

theorem cover_ignores_gap:
  "map_option (map_sum id slots)
     (parse_and_analyze (plain_analyzer (no_rules\<lparr>long_paragraph_threshold := Some 3\<rparr>))
        (u ''a'' @ [NL, NL] @ u ''bcd''))
     = Some (Inr [(0, u ''cover''), (1, u ''atmospheric'')])
   \<and> get_or (min_gap_between_images
               (rules (plain_analyzer (no_rules\<lparr>long_paragraph_threshold := Some 3\<rparr>)))) 3 = 3"
proof -
  have "map_sum id slots (map_sum id fst
          (analyze (plain_analyzer (no_rules\<lparr>long_paragraph_threshold := Some 3\<rparr>)) doc_a_bcd))
        = Inr [(0, u ''cover''), (1, u ''atmospheric'')]"
    by (simp add: analyzer_defs doc_a_bcd_def)
  moreover have "parse_and_analyze A (u ''a'' @ [NL, NL] @ u ''bcd'')
        = Some (map_sum id fst (analyze A doc_a_bcd))" for A
    unfolding parse_and_analyze_def parse_a_bcd by simp
  moreover have "get_or (min_gap_between_images
      (rules (plain_analyzer (no_rules\<lparr>long_paragraph_threshold := Some 3\<rparr>)))) 3 = 3"
    by (simp add: get_or_def plain_analyzer_def no_rules_def)
  ultimately show ?thesis by simp
qed

text \<open>
  Claim C2 fails on the code. With \<open>max_images_per_article = 0\<close> and the one-paragraph
  text \<open>abc\<close>, \<open>analyze\<close> returns one decision, the cover: the cover is appended
  before the first test of the count against the cap.
\<close>

theorem cover_ignores_cap:
  "map_option (map_sum id slots)
     (parse_and_analyze (plain_analyzer (no_rules\<lparr>max_images_per_article := Some 0\<rparr>))
        (u ''abc''))
     = Some (Inr [(0, u ''cover'')])
   \<and> get_or (max_images_per_article
               (rules (plain_analyzer (no_rules\<lparr>max_images_per_article := Some 0\<rparr>)))) 10 = 0"
proof -
  have "map_sum id slots (map_sum id fst
          (analyze (plain_analyzer (no_rules\<lparr>max_images_per_article := Some 0\<rparr>)) doc_abc))
        = Inr [(0, u ''cover'')]"
    by (simp add: analyzer_defs doc_abc_def)
  moreover have "parse_and_analyze A (u ''abc'') = Some (map_sum id fst (analyze A doc_abc))"
    for A
    unfolding parse_and_analyze_def parse_abc by simp
  moreover have "get_or (max_images_per_article
      (rules (plain_analyzer (no_rules\<lparr>max_images_per_article := Some 0\<rparr>)))) 10 = 0"
    by (simp add: get_or_def plain_analyzer_def no_rules_def)
  ultimately show ?thesis by simp
qed

text \<open>
  Claim C7 fails on the code. With a paragraph threshold of 3 and the one-paragraph
  text \<open>abc\<close>, \<open>analyze\<close> returns two decisions for element 0, the cover and then the
  decision of the main loop: their indices are equal, not increasing.
\<close>

theorem cover_repeats_element:
  "map_option (map_sum id slots)
     (parse_and_analyze (plain_analyzer (no_rules\<lparr>long_paragraph_threshold := Some 3\<rparr>))
        (u ''abc''))
     = Some (Inr [(0, u ''cover''), (0, u ''atmospheric'')])"
proof -
  have "map_sum id slots (map_sum id fst
          (analyze (plain_analyzer (no_rules\<lparr>long_paragraph_threshold := Some 3\<rparr>)) doc_abc))
        = Inr [(0, u ''cover''), (0, u ''atmospheric'')]"
    by (simp add: analyzer_defs doc_abc_def)
  moreover have "parse_and_analyze A (u ''abc'') = Some (map_sum id fst (analyze A doc_abc))"
    for A
    unfolding parse_and_analyze_def parse_abc by simp
  ultimately show ?thesis by simp
qed


section \<open>The regeneration plan\<close>

lemma find_index_present:
  "int i \<in> index ` set existing \<Longrightarrow> \<exists>img. find (\<lambda>img. index img = int i) existing = Some img"
  by (cases "find (\<lambda>img. index img = int i) existing") (auto simp: find_None_iff)

text \<open>
  The loop of \<open>create_regenerate_plan\<close> never raises, and it sends each ordinal to
  one bucket: to regenerate when it is selected, else to keep when some recovered
  image has it as index, else to missing.
\<close>

lemma plan_loop_buckets:
  "\<exists>p. plan_loop existing rg i ds acc = Inr p \<and>
     map k_index (keep p) = map k_index (keep acc)
       @ filter (\<lambda>j. int j \<notin> set rg \<and> int j \<in> index ` set existing) [i..<i + length ds] \<and>
     map t_index (regenerate p) = map t_index (regenerate acc)
       @ filter (\<lambda>j. int j \<in> set rg) [i..<i + length ds] \<and>
     map t_index (missing p) = map t_index (missing acc)
       @ filter (\<lambda>j. int j \<notin> set rg \<and> int j \<notin> index ` set existing) [i..<i + length ds]"
proof (induction ds arbitrary: i acc)
  case Nil
  then show ?case by simp
next
  case (Cons d ds)
  have "i < i + length (d # ds)" by simp
  from upt_conv_Cons [OF this]
  have u: "[i..<i + length (d # ds)] = i # [Suc i..<Suc i + length ds]" by simp
  show ?case
  proof (cases "int i \<in> set rg")
    case True
    with Cons.IH [of "Suc i" "acc\<lparr>regenerate := regenerate acc @ [todo_item i d]\<rparr>"]
    show ?thesis unfolding u by (auto simp: todo_item_def)
  next
    case False
    show ?thesis
    proof (cases "int i \<in> index ` set existing")
      case True
      from find_index_present [OF True] obtain img
        where f: "find (\<lambda>img. index img = int i) existing = Some img" by blast
      from Cons.IH [of "Suc i" "acc\<lparr>keep := keep acc @
            [\<lparr>k_index = i, k_image_path = image_path img, k_image_type = ex_image_type img\<rparr>]\<rparr>"]
      show ?thesis unfolding u using \<open>int i \<notin> set rg\<close> True f by auto
    next
      case False
      with Cons.IH [of "Suc i" "acc\<lparr>missing := missing acc @ [todo_item i d]\<rparr>"]
      show ?thesis unfolding u using \<open>int i \<notin> set rg\<close> by (auto simp: todo_item_def)
    qed
  qed
qed

lemma plan_buckets:
  "\<exists>p. create_regenerate_plan existing ds rg = Inr p \<and>
     map k_index (keep p)
       = filter (\<lambda>j. int j \<notin> set rg \<and> int j \<in> index ` set existing) [0..<length ds] \<and>
     map t_index (regenerate p) = filter (\<lambda>j. int j \<in> set rg) [0..<length ds] \<and>
     map t_index (missing p)
       = filter (\<lambda>j. int j \<notin> set rg \<and> int j \<notin> index ` set existing) [0..<length ds]"
  using plan_loop_buckets [of existing rg 0 ds "\<lparr>keep = [], regenerate = [], missing = []\<rparr>"]
  by (simp add: create_regenerate_plan_def)

lemma length_three_filters:
  "length (filter (\<lambda>j. \<not> R j \<and> E j) xs) + length (filter R xs)
     + length (filter (\<lambda>j. \<not> R j \<and> \<not> E j) xs) = length xs"
  by (induction xs) auto

text \<open>
  Claim C6. For all decisions, recovered images and indices to regenerate,
  \<open>create_regenerate_plan\<close> returns a plan; the lengths of its three buckets add up
  to the number of decisions, and no ordinal is in two buckets.
\<close>

theorem plan_complete_disjoint:
  "\<exists>p. create_regenerate_plan existing ds rg = Inr p \<and>
     length (keep p) + length (regenerate p) + length (missing p) = length ds \<and>
     k_index ` set (keep p) \<inter> t_index ` set (regenerate p) = {} \<and>
     k_index ` set (keep p) \<inter> t_index ` set (missing p) = {} \<and>
     t_index ` set (regenerate p) \<inter> t_index ` set (missing p) = {}"
proof -
  from plan_buckets [of existing ds rg] obtain p where
    p: "create_regenerate_plan existing ds rg = Inr p"
    and k: "map k_index (keep p)
       = filter (\<lambda>j. int j \<notin> set rg \<and> int j \<in> index ` set existing) [0..<length ds]"
    and r: "map t_index (regenerate p) = filter (\<lambda>j. int j \<in> set rg) [0..<length ds]"
    and m: "map t_index (missing p)
       = filter (\<lambda>j. int j \<notin> set rg \<and> int j \<notin> index ` set existing) [0..<length ds]"
    by blast
  have "length (map k_index (keep p)) + length (map t_index (regenerate p))
          + length (map t_index (missing p)) = length [0..<length ds]"
    unfolding k r m by (rule length_three_filters)
  then have len: "length (keep p) + length (regenerate p) + length (missing p) = length ds"
    by simp
  have ks: "k_index ` set (keep p) = set (map k_index (keep p))"
    and rs: "t_index ` set (regenerate p) = set (map t_index (regenerate p))"
    and ms: "t_index ` set (missing p) = set (map t_index (missing p))"
    by simp_all
  have d1: "k_index ` set (keep p) \<inter> t_index ` set (regenerate p) = {}"
    unfolding ks rs k r by auto
  have d2: "k_index ` set (keep p) \<inter> t_index ` set (missing p) = {}"
    unfolding ks ms k m by auto
  have d3: "t_index ` set (regenerate p) \<inter> t_index ` set (missing p) = {}"
    unfolding rs ms r m by auto
  from p len d1 d2 d3 show ?thesis by blast
qed

text \<open>
  An image line of the usual form never adds to the recovered images:
  \<open>_parse_image_info_from_alt_text\<close> returns no index, and the line is recorded only
  with an index.
\<close>

lemma standard_image_none: "standard_image line n = None"
  by (auto simp: standard_image_def parse_image_info_from_alt_text_def
           split: option.splits prod.splits)

lemmas regenerate_defs = parse_existing_images_def parse_image_info_from_context_def
  parse_image_type_from_context_def standard_image_none
  FAILED_MARK_def CANDIDATE_FROM_def CANDIDATE_def SELECTED_def TYPE_NAMES_def
  MERMAID_KEYWORDS_def strip_def lstrip_def rstrip_def startswith_def isspace_def
  slice_def count_str_def ascii_cjk_def NL_def u_def Let_def

text \<open>
  Claim C5 fails on the code. The file has the one line \<open>cover_line\<close>: an image
  reference outside every diagram block, whose path is no diagram marker and whose
  alternative text has the label of a cover, so that it counts as generated; and
  \<open>parse_existing_images\<close> recovers nothing from the file.
\<close>

theorem labelled_image_not_recovered:
  "image_search cover_line
     = Some ([23553, 38754, 22270] @ u '' - Title'', u ''images/cover.png'')
   \<and> is_auto_generated_image ([23553, 38754, 22270] @ u '' - Title'')
   \<and> \<not> startswith (u ''images/cover.png'') (u ''MERMAID_CODE:'')
   \<and> parse_existing_images ascii_cjk (Some [cover_line]) = Inr []"
proof -
  have "image_search cover_line
     = Some ([23553, 38754, 22270] @ u '' - Title'', u ''images/cover.png'')"
    by (simp add: cover_line_def image_at_def startswith_def u_def NL_def)
  moreover have "is_auto_generated_image ([23553, 38754, 22270] @ u '' - Title'')"
    by (simp add: is_auto_generated_image_def TYPE_NAMES_def startswith_def u_def)
  moreover have "\<not> startswith (u ''images/cover.png'') (u ''MERMAID_CODE:'')"
    by (simp add: startswith_def u_def)
  moreover have "parse_existing_images ascii_cjk (Some [cover_line]) = Inr []"
    by (simp add: regenerate_defs cover_line_def)
  ultimately show ?thesis by blast
qed

lemma existing_of_assembled_file:
  "parse_existing_images ascii_cjk (Some assembled_file) = Inr []"
  by (simp add: regenerate_defs assembled_file_def section_line_def)

lemma existing_of_labelled_file:
  "parse_existing_images ascii_cjk (Some labelled_file) = Inr [failed_cover]"
  by (simp add: regenerate_defs labelled_file_def section_line_def failed_cover_def)

text \<open>
  Claim C3 fails on the code. First, for the file in which the failure is attributed
  to a cover, the decisions cover and section, and the selector for ordinal 1:
  ordinal 0 is kept, with the empty path of the recovered cover, though that cover
  is marked failed. Second, for the recovered failed cover and the one decision
  section, with nothing selected: the section is kept as a cover, though the kinds
  differ. \<open>create_regenerate_plan\<close> looks at the index of a recovered image only.
\<close>

theorem keep_ignores_kind_and_failure:
  "parse_for_regeneration ascii_cjk (Some labelled_file)
       [cover_decision, section_decision] (Some 1) None False
     = Inr \<lparr>keep = [\<lparr>k_index = 0, k_image_path = [], k_image_type = u ''cover''\<rparr>],
            regenerate = [todo_item 1 section_decision], missing = []\<rparr>
   \<and> \<not> spec_keep_condition [failed_cover] [1] [cover_decision, section_decision] 0
   \<and> create_regenerate_plan [failed_cover] [section_decision] []
     = Inr \<lparr>keep = [\<lparr>k_index = 0, k_image_path = [], k_image_type = u ''cover''\<rparr>],
            regenerate = [], missing = []\<rparr>
   \<and> \<not> spec_keep_condition [failed_cover] [] [section_decision] 0"
proof -
  have "parse_for_regeneration ascii_cjk (Some labelled_file)
       [cover_decision, section_decision] (Some 1) None False
     = Inr \<lparr>keep = [\<lparr>k_index = 0, k_image_path = [], k_image_type = u ''cover''\<rparr>],
            regenerate = [todo_item 1 section_decision], missing = []\<rparr>"
    by (simp add: parse_for_regeneration_def existing_of_labelled_file failed_cover_def
          filter_images_to_regenerate_def create_regenerate_plan_def)
  moreover have "\<not> spec_keep_condition [failed_cover] [1] [cover_decision, section_decision] 0"
    by (simp add: spec_keep_condition_def failed_cover_def)
  moreover have "create_regenerate_plan [failed_cover] [section_decision] []
     = Inr \<lparr>keep = [\<lparr>k_index = 0, k_image_path = [], k_image_type = u ''cover''\<rparr>],
            regenerate = [], missing = []\<rparr>"
    by (simp add: create_regenerate_plan_def failed_cover_def)
  moreover have "\<not> spec_keep_condition [failed_cover] [] [section_decision] 0"
    by (simp add: spec_keep_condition_def failed_cover_def section_decision_def u_def)
  ultimately show ?thesis by blast
qed

text \<open>
  Claim C4 fails on the code. The decisions are a cover and a section and the selector
  is the one for failed images. For the file as the assembler writes it, nothing is
  recovered and both decisions are missing. For the file in which the failure is
  attributed to a cover, the cover is regenerated and the section is missing. In
  neither plan is the section kept: its image line is never recovered.
\<close>

theorem only_failed_scenario_plan:
  "map_sum id plan_indices
     (parse_for_regeneration ascii_cjk (Some assembled_file)
        [cover_decision, section_decision] None None True) = Inr ([], [], [0, 1])
   \<and> map_sum id plan_indices
     (parse_for_regeneration ascii_cjk (Some labelled_file)
        [cover_decision, section_decision] None None True) = Inr ([], [0], [1])"
proof -
  have "map_sum id plan_indices
     (parse_for_regeneration ascii_cjk (Some assembled_file)
        [cover_decision, section_decision] None None True) = Inr ([], [], [0, 1])"
    by (simp add: parse_for_regeneration_def existing_of_assembled_file
          filter_images_to_regenerate_def create_regenerate_plan_def plan_indices_def
          todo_item_def)
  moreover have "map_sum id plan_indices
     (parse_for_regeneration ascii_cjk (Some labelled_file)
        [cover_decision, section_decision] None None True) = Inr ([], [0], [1])"
    by (simp add: parse_for_regeneration_def existing_of_labelled_file failed_cover_def
          filter_images_to_regenerate_def create_regenerate_plan_def plan_indices_def
          todo_item_def)
  ultimately show ?thesis by blast
qed

end
